theory Spec2Isabelle
  imports Main "HOL-Library.Char_ord" "HOL-Library.List_Lexorder" "HOL-Library.Product_Lexorder"
begin

section \<open>collect-todos.py: a shallow embedding\<close>

text \<open>
  The script \<^verbatim>\<open>bin/collect-todos.py\<close> walks project directories, finds TODO-like
  markers line by line with one regular expression, and renders a Markdown report.
  Each function of the script is a HOL function of the same name below.

  Character model: a \<^typ>\<open>char\<close> is one byte, and text is read as ASCII. The classes
  \<^verbatim>\<open>\s\<close>, \<^verbatim>\<open>\w\<close> and the case mappings are those of Python on code points below 128;
  a byte from 128 on is carried through as an opaque character (no whitespace, no word
  character, no case). Non-ASCII literals of the script appear as their UTF-8 bytes.
\<close>

subsection \<open>Python string operations\<close>

definition code :: "char \<Rightarrow> nat" where
  "code c = of_char c"

definition isspace :: "char \<Rightarrow> bool" where
  \<comment> \<open>\<^verbatim>\<open>str.isspace\<close> and \<^verbatim>\<open>\s\<close>: TAB..CR, FS..US and SPACE\<close>
  "isspace c = ((9 \<le> code c \<and> code c \<le> 13) \<or> (28 \<le> code c \<and> code c \<le> 32))"

definition isword :: "char \<Rightarrow> bool" where
  \<comment> \<open>\<^verbatim>\<open>\w\<close>: digits, letters and the underscore\<close>
  "isword c = ((48 \<le> code c \<and> code c \<le> 57) \<or> (65 \<le> code c \<and> code c \<le> 90)
               \<or> code c = 95 \<or> (97 \<le> code c \<and> code c \<le> 122))"

definition lower_char :: "char \<Rightarrow> char" where
  "lower_char c = (if 65 \<le> code c \<and> code c \<le> 90 then char_of (code c + 32) else c)"

definition upper_char :: "char \<Rightarrow> char" where
  "upper_char c = (if 97 \<le> code c \<and> code c \<le> 122 then char_of (code c - 32) else c)"

definition lower :: "string \<Rightarrow> string" where
  "lower s = map lower_char s"

definition upper :: "string \<Rightarrow> string" where
  "upper s = map upper_char s"

definition strip :: "string \<Rightarrow> string" where
  "strip s = rev (dropWhile isspace (rev (dropWhile isspace s)))"

fun startswith :: "string \<Rightarrow> string \<Rightarrow> bool" where
  "startswith s [] = True"
| "startswith [] (p # ps) = False"
| "startswith (c # cs) (p # ps) = (c = p \<and> startswith cs ps)"

definition endswith :: "string \<Rightarrow> string \<Rightarrow> bool" where
  "endswith s p = startswith (rev s) (rev p)"

fun contains :: "string \<Rightarrow> string \<Rightarrow> bool" where
  \<comment> \<open>\<^verbatim>\<open>sub in s\<close>\<close>
  "contains sub [] = (sub = [])"
| "contains sub (c # cs) = (startswith (c # cs) sub \<or> contains sub cs)"

fun split_acc :: "char \<Rightarrow> string \<Rightarrow> string \<Rightarrow> string list" where
  "split_acc sep acc [] = [rev acc]"
| "split_acc sep acc (c # cs) =
     (if c = sep then rev acc # split_acc sep [] cs else split_acc sep (c # acc) cs)"

definition split_on :: "char \<Rightarrow> string \<Rightarrow> string list" where
  \<comment> \<open>\<^verbatim>\<open>s.split(sep)\<close> for a one-character separator\<close>
  "split_on sep s = split_acc sep [] s"

fun split1 :: "char \<Rightarrow> string \<Rightarrow> string list" where
  \<comment> \<open>\<^verbatim>\<open>s.split(sep, 1)\<close>: one or two parts\<close>
  "split1 sep [] = [[]]"
| "split1 sep (c # cs) =
     (if c = sep then [[], cs]
      else (case split1 sep cs of
              [a] \<Rightarrow> [c # a]
            | a # rest \<Rightarrow> (c # a) # rest
            | [] \<Rightarrow> [[c]]))"

fun join :: "string \<Rightarrow> string list \<Rightarrow> string" where
  "join sep [] = []"
| "join sep [x] = x"
| "join sep (x # y # ys) = x @ sep @ join sep (y # ys)"

definition replace_char :: "char \<Rightarrow> char \<Rightarrow> string \<Rightarrow> string" where
  \<comment> \<open>\<^verbatim>\<open>s.replace(a, b)\<close> for one-character \<open>a\<close> and \<open>b\<close>\<close>
  "replace_char a b s = map (\<lambda>c. if c = a then b else c) s"

fun str_nat :: "nat \<Rightarrow> string" where
  \<comment> \<open>\<^verbatim>\<open>str(n)\<close> for a non-negative integer\<close>
  "str_nat n = (if n < 10 then [char_of (48 + n)]
                else str_nat (n div 10) @ [char_of (48 + n mod 10)])"

declare str_nat.simps [simp del]

fun rfind :: "char \<Rightarrow> string \<Rightarrow> nat option" where
  "rfind c [] = None"
| "rfind c (x # xs) =
     (case rfind c xs of Some i \<Rightarrow> Some (Suc i) | None \<Rightarrow> if x = c then Some 0 else None)"

subsection \<open>The regular expression\<close>

text \<open>
  A backtracking matcher in the style of Python's \<^verbatim>\<open>re\<close>: \<open>rmatch r s\<close> is the list of
  all ways \<open>r\<close> matches at state \<open>s\<close>, in the order in which the backtracking engine tries
  them, so the head of the list is the match \<^verbatim>\<open>re\<close> reports. A state is the position,
  the rest of the input and the groups captured so far. Repetition is only needed over
  character classes. Literals match case-insensitively (flag \<^verbatim>\<open>i\<close>); \<^verbatim>\<open>^\<close> and \<^verbatim>\<open>$\<close>
  are the anchors without the MULTILINE flag.
\<close>

type_synonym caps = "(string \<times> string) list"
type_synonym mstate = "nat \<times> string \<times> caps"

datatype rx = Bol | Eol | Cls "char \<Rightarrow> bool" | Lit string
  | Seq rx rx | Alt rx rx | Opt rx | Star "char \<Rightarrow> bool" | LazyStar "char \<Rightarrow> bool"
  | Grp string rx

fun lit_ci :: "string \<Rightarrow> mstate \<Rightarrow> mstate list" where
  "lit_ci [] s = [s]"
| "lit_ci (p # ps) (i, [], g) = []"
| "lit_ci (p # ps) (i, c # cs, g) =
     (if lower_char c = lower_char p then lit_ci ps (Suc i, cs, g) else [])"

fun star_greedy :: "(char \<Rightarrow> bool) \<Rightarrow> mstate \<Rightarrow> mstate list" where
  "star_greedy p (i, [], g) = [(i, [], g)]"
| "star_greedy p (i, c # cs, g) =
     (if p c then star_greedy p (Suc i, cs, g) else []) @ [(i, c # cs, g)]"

fun star_lazy :: "(char \<Rightarrow> bool) \<Rightarrow> mstate \<Rightarrow> mstate list" where
  "star_lazy p (i, [], g) = [(i, [], g)]"
| "star_lazy p (i, c # cs, g) =
     (i, c # cs, g) # (if p c then star_lazy p (Suc i, cs, g) else [])"

fun cls :: "(char \<Rightarrow> bool) \<Rightarrow> mstate \<Rightarrow> mstate list" where
  "cls p (i, [], g) = []"
| "cls p (i, c # cs, g) = (if p c then [(Suc i, cs, g)] else [])"

fun bol :: "mstate \<Rightarrow> mstate list" where
  "bol (i, cs, g) = (if i = 0 then [(i, cs, g)] else [])"

fun eol :: "mstate \<Rightarrow> mstate list" where
  \<comment> \<open>at the end, or just before a newline that ends the string\<close>
  "eol (i, cs, g) = (if cs = [] \<or> cs = [CHR 0x0A] then [(i, cs, g)] else [])"

fun capture :: "string \<Rightarrow> mstate \<Rightarrow> mstate \<Rightarrow> mstate" where
  "capture n (i, cs, g) (j, cs', g') = (j, cs', (n, take (j - i) cs) # g')"

primrec rmatch :: "rx \<Rightarrow> mstate \<Rightarrow> mstate list" where
  "rmatch Bol s = bol s"
| "rmatch Eol s = eol s"
| "rmatch (Cls p) s = cls p s"
| "rmatch (Lit w) s = lit_ci w s"
| "rmatch (Seq a b) s = concat (map (rmatch b) (rmatch a s))"
| "rmatch (Alt a b) s = rmatch a s @ rmatch b s"
| "rmatch (Opt a) s = rmatch a s @ [s]"
| "rmatch (Star p) s = star_greedy p s"
| "rmatch (LazyStar p) s = star_lazy p s"
| "rmatch (Grp n a) s = map (capture n s) (rmatch a s)"

fun search_from :: "rx \<Rightarrow> nat \<Rightarrow> string \<Rightarrow> caps option" where
  "search_from r i [] =
     (case rmatch r (i, [], []) of [] \<Rightarrow> None | s # _ \<Rightarrow> Some (snd (snd s)))"
| "search_from r i (c # cs) =
     (case rmatch r (i, c # cs, []) of
        s # _ \<Rightarrow> Some (snd (snd s))
      | [] \<Rightarrow> search_from r (Suc i) cs)"

definition search :: "rx \<Rightarrow> string \<Rightarrow> caps option" where
  \<comment> \<open>\<^verbatim>\<open>pattern.search(s)\<close>: the first match at the leftmost start position\<close>
  "search r s = search_from r 0 s"

definition group :: "caps \<Rightarrow> string \<Rightarrow> string option" where
  \<comment> \<open>\<^verbatim>\<open>m.group(name)\<close>; \<open>None\<close> when the group took no part in the match\<close>
  "group m n = map_of m n"

definition seqs :: "rx list \<Rightarrow> rx" where
  "seqs rs = foldr Seq (butlast rs) (last rs)"

definition ws :: rx where
  "ws = Star isspace"

definition ch :: "char \<Rightarrow> rx" where
  "ch c = Cls (\<lambda>x. x = c)"

definition sep_class :: "char \<Rightarrow> bool" where
  \<comment> \<open>\<^verbatim>\<open>[:\-\s]\<close>\<close>
  "sep_class c = (c = CHR '':'' \<or> c = CHR ''-'' \<or> isspace c)"

definition TODO_PATTERN :: rx where
  "TODO_PATTERN = seqs
     [Grp ''prefix'' (Alt Bol (Alt (Cls isspace) (Cls (\<lambda>c. \<not> isword c)))),
      Grp ''marker'' (Alt (Lit ''TODO'') (Alt (Lit ''FIXME'') (Lit ''BUG''))),
      Opt (Alt (seqs [ws, Cls sep_class, ws])
               (seqs [ws, ch CHR ''('', ws,
                      Grp ''tag'' (Seq (Cls (\<lambda>c. c \<noteq> CHR '')'')) (Star (\<lambda>c. c \<noteq> CHR '')''))),
                      ws, ch CHR '')'', ws,
                      Opt (Cls (\<lambda>c. c = CHR '':'' \<or> c = CHR ''-'')), ws])),
      Grp ''text'' (LazyStar (\<lambda>c. c \<noteq> CHR 0x0A)),
      Eol]"

subsection \<open>Files\<close>

text \<open>
  A file is its bytes together with how reading it behaves: the binary read of
  \<open>is_binary_file\<close> may raise, and the text read of \<open>scan_file\<close> may raise after some
  number of lines has been delivered (\<open>Some 0\<close>: the open itself fails).
\<close>

record fsfile =
  raw :: string
  bin_read_fails :: bool
  text_read_fails :: "nat option"

definition textchars :: "nat \<Rightarrow> bool" where
  \<comment> \<open>membership in \<^verbatim>\<open>{7, 8, 9, 10, 12, 13, 27} | set(range(0x20, 0x100))\<close>\<close>
  "textchars n = (n \<in> set [7, 8, 9, 10, 12, 13, 27] \<or> (0x20 \<le> n \<and> n < 0x100))"

definition is_binary_file :: "fsfile \<Rightarrow> nat \<Rightarrow> bool" where
  "is_binary_file path sample_size =
     (if bin_read_fails path then True
      else (let chunk = take sample_size (raw path) in
            if CHR 0x00 \<in> set chunk then True
            else filter (\<lambda>b. \<not> textchars (code b)) chunk \<noteq> []))"

fun readlines_acc :: "bool \<Rightarrow> string \<Rightarrow> string \<Rightarrow> string list" where
  \<comment> \<open>text mode with universal newlines: CR, LF and CR LF all end a line and read as LF\<close>
  "readlines_acc cr acc [] = (if acc = [] then [] else [rev acc])"
| "readlines_acc cr acc (c # cs) =
     (if c = CHR 0x0A then
        (if cr then readlines_acc False acc cs
         else rev (CHR 0x0A # acc) # readlines_acc False [] cs)
      else if c = CHR 0x0D then rev (CHR 0x0A # acc) # readlines_acc True [] cs
      else readlines_acc False (c # acc) cs)"

definition readlines :: "string \<Rightarrow> string list" where
  "readlines s = readlines_acc False [] s"

definition delivered :: "fsfile \<Rightarrow> string list" where
  \<comment> \<open>the lines the loop of \<open>scan_file\<close> sees before the file ends or the read raises\<close>
  "delivered f = (case text_read_fails f of
                    None \<Rightarrow> readlines (raw f)
                  | Some n \<Rightarrow> take n (readlines (raw f)))"

subsection \<open>Marker scanning\<close>

record entry =
  line :: nat
  marker :: string
  tag :: string
  msg :: string \<comment> \<open>the key \<^verbatim>\<open>text\<close>\<close>
  preview :: string

datatype 'a step = Continue | Append 'a | Raised

definition scan_line :: "string list \<Rightarrow> nat \<Rightarrow> string \<Rightarrow> entry step" where
  \<comment> \<open>the body of the loop of \<open>scan_file\<close>\<close>
  "scan_line markers i ln =
     (case search TODO_PATTERN ln of
        None \<Rightarrow> Continue
      | Some m \<Rightarrow>
          (case group m ''marker'' of
             None \<Rightarrow> Continue
           | Some mk \<Rightarrow>
               if mk \<notin> set markers then Continue
               else (case group m ''text'' of
                       None \<Rightarrow> Raised
                     | Some t \<Rightarrow>
                         Append \<lparr>line = i, marker = mk,
                           tag = (case group m ''tag'' of
                                    None \<Rightarrow> []
                                  | Some tg \<Rightarrow> if tg = [] then [] else strip tg),
                           msg = strip t, preview = strip ln\<rparr>)))"

fun scan_loop :: "string list \<Rightarrow> nat \<Rightarrow> string list \<Rightarrow> entry list" where
  \<comment> \<open>the loop inside \<^verbatim>\<open>try\<close>: an exception ends it and keeps what was appended\<close>
  "scan_loop markers i [] = []"
| "scan_loop markers i (ln # lns) =
     (case scan_line markers i ln of
        Continue \<Rightarrow> scan_loop markers (Suc i) lns
      | Append e \<Rightarrow> e # scan_loop markers (Suc i) lns
      | Raised \<Rightarrow> [])"

definition scan_file :: "fsfile \<Rightarrow> string list \<Rightarrow> entry list" where
  "scan_file path markers = scan_loop markers 1 (delivered path)"

subsection \<open>File discovery\<close>

datatype dirtree = Dir (subdirs: "(string \<times> dirtree) list") (files: "(string \<times> fsfile) list")

definition should_exclude_dir :: "string \<Rightarrow> string set \<Rightarrow> bool" where
  "should_exclude_dir dirname excluded =
     (dirname \<in> excluded \<or> (startswith dirname ''.'' \<and> dirname \<notin> {''.''}))"

fun walk :: "(string \<Rightarrow> bool) \<Rightarrow> string list \<Rightarrow> dirtree
             \<Rightarrow> (string list \<times> (string \<times> fsfile) list) list" where
  \<comment> \<open>\<^verbatim>\<open>os.walk\<close>, top down, with the caller's pruning of \<^verbatim>\<open>dirs\<close>: the directories
      visited, each as its path below the top and its files\<close>
  "walk prune root (Dir ds fs) =
     (root, fs) # concat (map (\<lambda>(d, t). walk prune (root @ [d]) t)
                              (filter (\<lambda>(d, t). \<not> prune d) ds))"

definition path_suffix :: "string \<Rightarrow> string" where
  \<comment> \<open>\<^verbatim>\<open>Path.suffix\<close> of a file name\<close>
  "path_suffix name =
     (case rfind CHR ''.'' name of
        None \<Rightarrow> []
      | Some i \<Rightarrow> if 0 < i \<and> i < length name - 1 then drop i name else [])"

definition file_ext :: "string \<Rightarrow> string" where
  \<comment> \<open>\<^verbatim>\<open>p.suffix.lower() if p.suffix else p.name.lower()\<close>\<close>
  "file_ext name = (if path_suffix name \<noteq> [] then lower (path_suffix name) else lower name)"

definition collect_files :: "dirtree \<Rightarrow> string set \<Rightarrow> string set \<Rightarrow> (string list \<times> fsfile) list" where
  \<comment> \<open>the eligible files, each with its path below the repo directory\<close>
  "collect_files repo_dir include_exts excluded_dirs =
     concat (map (\<lambda>(root, fs).
                   map (\<lambda>(f, p). (root @ [f], p))
                       (filter (\<lambda>(f, p). file_ext f \<in> include_exts \<and> \<not> is_binary_file p 1024) fs))
                 (walk (\<lambda>d. should_exclude_dir d excluded_dirs) [] repo_dir))"

subsection \<open>Remote metadata\<close>

text \<open>
  What the three \<^verbatim>\<open>git\<close> commands print in a repo directory; \<open>None\<close> when the command
  fails (or its output cannot be decoded), which \<^verbatim>\<open>check_output\<close> turns into an exception.
\<close>

record git =
  remote_url :: "string option"
  symbolic_ref :: "string option"
  rev_parse :: "string option"

record remote_info =
  host :: string
  orgrepo :: string
  repo_name :: string \<comment> \<open>the key \<^verbatim>\<open>repo\<close>\<close>
  default_branch :: string

definition git_cmd :: "string option \<Rightarrow> string option" where
  \<comment> \<open>the local function \<^verbatim>\<open>_git\<close>\<close>
  "git_cmd out = map_option strip out"

definition falsy :: "string option \<Rightarrow> bool" where
  \<comment> \<open>\<^verbatim>\<open>not x\<close> for \<open>x\<close> a string or \<^verbatim>\<open>None\<close>\<close>
  "falsy x = (x = None \<or> x = Some [])"

definition detect_branch :: "git \<Rightarrow> string" where
  \<comment> \<open>the nested \<^verbatim>\<open>try\<close> of \<open>detect_remote_info\<close>\<close>
  "detect_branch repo_dir =
     (case git_cmd (symbolic_ref repo_dir) of
        Some b \<Rightarrow> last (split_on CHR ''/'' b)
      | None \<Rightarrow>
          (case git_cmd (rev_parse repo_dir) of
             Some b \<Rightarrow> b
           | None \<Rightarrow> ''main''))"

definition parse_remote :: "string \<Rightarrow> (string option \<times> string option) option" where
  \<comment> \<open>host and org/repo of a normalised URL; the outer \<open>None\<close> is an early
      \<^verbatim>\<open>return None\<close> or an exception caught by the outer \<^verbatim>\<open>try\<close>\<close>
  "parse_remote url =
     (if startswith url ''git@'' then
        (case split1 CHR ''@'' url of
           [u, rest] \<Rightarrow>
             (case split1 CHR '':'' rest of
                [h, path] \<Rightarrow> Some (Some h, Some path)
              | _ \<Rightarrow> None)
         | _ \<Rightarrow> None)
      else if startswith url ''https://'' \<or> startswith url ''http://'' then
        (let parts = split_on CHR ''/'' url in
         if length parts \<ge> 5
         then Some (Some (parts ! 2), Some (join ''/'' (take 2 (drop 3 parts))))
         else Some (None, None))
      else None)"

definition detect_remote_info :: "git \<Rightarrow> remote_info option" where
  "detect_remote_info repo_dir =
     (case git_cmd (remote_url repo_dir) of
        None \<Rightarrow> None
      | Some url0 \<Rightarrow>
          (let url = (if endswith url0 ''.git'' then take (length url0 - 4) url0 else url0) in
           case parse_remote url of
             None \<Rightarrow> None
           | Some (h, orp) \<Rightarrow>
               if falsy h \<or> falsy orp then None
               else (case (h, orp) of
                       (Some h', Some orp') \<Rightarrow>
                         Some \<lparr>host = h', orgrepo = orp',
                               repo_name = last (split_on CHR ''/'' orp'),
                               default_branch = detect_branch repo_dir\<rparr>
                     | _ \<Rightarrow> None)))"

subsection \<open>Link construction\<close>

definition LINE_LINK_TEMPLATES :: "(string \<times> string) list" where
  "LINE_LINK_TEMPLATES =
     [(''github.com'', ''https://{host}/{orgrepo}/blob/{branch}/{path}#L{line}''),
      (''gitlab.com'', ''https://{host}/{orgrepo}/-/blob/{branch}/{path}#L{line}''),
      (''dev.azure.com'',
       ''https://{host}/{orgrepo}/_git/{repo}?path=/{path}&version=GB{branch}&line={line}'')]"

fun format_acc :: "(string \<Rightarrow> string option) \<Rightarrow> string option \<Rightarrow> string \<Rightarrow> string option" where
  \<comment> \<open>\<^verbatim>\<open>str.format\<close> with named fields; the second argument is the field name read so
      far (reversed) inside braces. \<open>None\<close> is an exception: an unknown field or
      unbalanced braces. Escaped braces and format specifications are not modelled;
      the templates have none.\<close>
  "format_acc env None [] = Some []"
| "format_acc env (Some n) [] = None"
| "format_acc env None (c # cs) =
     (if c = CHR ''{'' then format_acc env (Some []) cs
      else if c = CHR ''}'' then None
      else map_option ((#) c) (format_acc env None cs))"
| "format_acc env (Some n) (c # cs) =
     (if c = CHR ''}'' then
        (case env (rev n) of
           None \<Rightarrow> None
         | Some v \<Rightarrow> map_option ((@) v) (format_acc env None cs))
      else format_acc env (Some (c # n)) cs)"

definition format :: "string \<Rightarrow> (string \<times> string) list \<Rightarrow> string option" where
  "format template kwargs = format_acc (map_of kwargs) None template"

definition build_line_link :: "remote_info \<Rightarrow> string \<Rightarrow> string \<Rightarrow> nat \<Rightarrow> string option" where
  "build_line_link remote branch rel_path line_no =
     (case find (\<lambda>(h, template). contains h (host remote)) LINE_LINK_TEMPLATES of
        None \<Rightarrow> None
      | Some (h, template) \<Rightarrow>
          format template
            [(''host'', host remote), (''orgrepo'', orgrepo remote), (''repo'', repo_name remote),
             (''branch'', branch), (''path'', rel_path), (''line'', str_nat line_no)])"

subsection \<open>The critical-finding heuristic\<close>

definition CRITICAL_WORDS :: "string set" where
  "CRITICAL_WORDS = set [''urgent'', ''blocker'', ''security'', ''prod'', ''production'',
                         ''p0'', ''sev1'', ''severe'']"

definition looks_critical :: "string \<Rightarrow> bool" where
  "looks_critical t = (\<exists>word \<in> CRITICAL_WORDS. contains word (lower t))"

subsection \<open>Configuration and the scanned world\<close>

definition DEFAULT_MARKERS :: "string list" where
  "DEFAULT_MARKERS = [''TODO'', ''FIXME'', ''BUG'']"

definition DEFAULT_EXCLUDED_DIRS :: "string set" where
  "DEFAULT_EXCLUDED_DIRS = set
     [''.git'', ''.hg'', ''.svn'', ''.idea'', ''.vscode'',
      ''node_modules'', ''dist'', ''build'', ''out'', ''target'', ''__pycache__'', ''.venv'', ''venv'',
      ''.next'', ''.turbo'', ''.tox'', ''.mypy_cache'', ''.pytest_cache'']"

definition DEFAULT_INCLUDE_EXTS :: "string set" where
  "DEFAULT_INCLUDE_EXTS = set
     [''.py'', ''.kt'', ''.java'', ''.go'', ''.ts'', ''.tsx'', ''.js'', ''.jsx'',
      ''.rb'', ''.rs'', ''.c'', ''.h'', ''.cpp'', ''.hpp'', ''.cs'',
      ''.yaml'', ''.yml'', ''.json'', ''.sh'', ''.bash'', ''.zsh'',
      ''.md'', ''.txt'', ''.toml'', ''.ini'', ''.tf'', ''.tfvars'', ''.dockerfile'', ''dockerfile'']"

record args =
  opt_root :: string
  opt_repos :: string
  opt_out_md :: string
  opt_out_json :: string
  opt_marker :: string
  opt_include_ext :: string
  opt_extra_exclude :: string
  opt_no_remote_links :: bool
  opt_branch :: string

definition parse_args :: args where
  \<comment> \<open>the defaults: what \<open>parse_args\<close> returns for an empty command line\<close>
  "parse_args =
     \<lparr>opt_root = ''..'', opt_repos = [], opt_out_md = ''TODO.md'', opt_out_json = [],
      opt_marker = join '','' DEFAULT_MARKERS,
      opt_include_ext = join '','' (sorted_list_of_set DEFAULT_INCLUDE_EXTS),
      opt_extra_exclude = [], opt_no_remote_links = False, opt_branch = []\<rparr>"

text \<open>
  The world a run sees: the entries of the root directory (\<open>None\<close> when the root cannot
  be listed), each a directory with its git answers and its tree or something else; the
  resolved root path, the clock, and whether the two output files can be written. Repo
  names are looked up as direct children of the root.
\<close>

datatype node = Directory git dirtree | Other

record world =
  root_path :: string
  root_entries :: "(string \<times> node) list option"
  utcnow :: string
  md_writable :: bool
  json_writable :: bool

definition is_dir :: "world \<Rightarrow> string \<Rightarrow> (git \<times> dirtree) option" where
  \<comment> \<open>\<^verbatim>\<open>(root / repo_name).is_dir()\<close>, with what the directory holds\<close>
  "is_dir w name =
     (case root_entries w of
        None \<Rightarrow> None
      | Some es \<Rightarrow>
          (case map_of es name of
             Some (Directory g t) \<Rightarrow> Some (g, t)
           | _ \<Rightarrow> None))"

definition comma_list :: "string \<Rightarrow> string list" where
  \<comment> \<open>\<^verbatim>\<open>[x.strip() for x in s.split(",") if x.strip()]\<close>\<close>
  "comma_list s = map strip (filter (\<lambda>x. strip x \<noteq> []) (split_on CHR '','' s))"

definition include_exts_of :: "args \<Rightarrow> string set" where
  "include_exts_of a = set (map lower (comma_list (opt_include_ext a)))"

definition markers_of :: "args \<Rightarrow> string list" where
  "markers_of a = map upper (comma_list (opt_marker a))"

definition excluded_dirs_of :: "args \<Rightarrow> string set" where
  "excluded_dirs_of a =
     DEFAULT_EXCLUDED_DIRS \<union>
       (if opt_extra_exclude a \<noteq> [] then set (comma_list (opt_extra_exclude a)) else {})"

datatype fatal = RootNotListable | WriteFailed

definition repos_of :: "args \<Rightarrow> world \<Rightarrow> fatal + string list" where
  \<comment> \<open>"Determine repos to scan"; \<^verbatim>\<open>root.iterdir()\<close> raises when the root cannot be listed\<close>
  "repos_of a w =
     (if opt_repos a \<noteq> [] then Inr (comma_list (opt_repos a))
      else (case root_entries w of
              None \<Rightarrow> Inl RootNotListable
            | Some es \<Rightarrow>
                Inr (map fst (filter (\<lambda>(name, n). n \<noteq> Other \<and> name \<noteq> ''super'') es))))"

subsection \<open>The scan loop of main\<close>

record item = entry +
  file_rel :: string \<comment> \<open>the key \<^verbatim>\<open>file\<close>\<close>
  link :: string
  repo :: string

type_synonym acc = "(string \<times> item list) list \<times> bool"

definition setdefault_append :: "'k \<Rightarrow> 'v \<Rightarrow> ('k \<times> 'v list) list \<Rightarrow> ('k \<times> 'v list) list" where
  \<comment> \<open>\<^verbatim>\<open>d.setdefault(k, []).append(v)\<close> on a dictionary kept in insertion order\<close>
  "setdefault_append k v d =
     (if k \<in> fst ` set d
      then map (\<lambda>(k', vs). if k' = k then (k', vs @ [v]) else (k', vs)) d
      else d @ [(k, [v])])"

definition process_entry ::
  "args \<Rightarrow> remote_info option \<Rightarrow> string \<Rightarrow> string \<Rightarrow> string \<Rightarrow> entry \<Rightarrow> acc \<Rightarrow> acc" where
  \<comment> \<open>the body of \<^verbatim>\<open>for entry in entries\<close>; the state is \<open>(aggregated, critical_found)\<close>\<close>
  "process_entry a remote_info branch name rel_from_repo e st =
     (let line_no = line e;
          lnk = (case remote_info of
                   Some ri \<Rightarrow>
                     if \<not> opt_no_remote_links a
                     then build_line_link ri branch (replace_char (CHR 0x5C) CHR ''/'' rel_from_repo) line_no
                     else None
                 | None \<Rightarrow> None);
          critical_found = (if looks_critical (msg e) then True else snd st)
      in (setdefault_append name
            \<lparr>line = line_no, marker = marker e, tag = tag e, msg = msg e, preview = preview e,
             file_rel = replace_char (CHR 0x5C) CHR ''/'' rel_from_repo,
             link = (case lnk of None \<Rightarrow> [] | Some l \<Rightarrow> l),
             repo = name\<rparr> (fst st),
          critical_found))"

definition process_file ::
  "args \<Rightarrow> string list \<Rightarrow> remote_info option \<Rightarrow> string \<Rightarrow> string
     \<Rightarrow> string list \<times> fsfile \<Rightarrow> acc \<Rightarrow> acc" where
  \<comment> \<open>the body of \<^verbatim>\<open>for file_path in files\<close>\<close>
  "process_file a markers remote_info branch name pf st =
     fold (process_entry a remote_info branch name (join ''/'' (fst pf)))
          (scan_file (snd pf) markers) st"

definition process_repo :: "args \<Rightarrow> world \<Rightarrow> string \<Rightarrow> acc \<Rightarrow> acc" where
  \<comment> \<open>the body of \<^verbatim>\<open>for repo_name in sorted(repos)\<close>\<close>
  "process_repo a w name st =
     (case is_dir w name of
        None \<Rightarrow> st
      | Some (g, t) \<Rightarrow>
          (let remote_info = (if opt_no_remote_links a then None else detect_remote_info g);
               branch = (if opt_branch a \<noteq> [] then opt_branch a
                         else (case remote_info of Some ri \<Rightarrow> default_branch ri | None \<Rightarrow> ''main''));
               fls = collect_files t (include_exts_of a) (excluded_dirs_of a)
           in fold (process_file a (markers_of a) remote_info branch name) fls st))"

subsection \<open>Rendering\<close>

definition sorted_items :: "(string \<times> 'v list) list \<Rightarrow> (string \<times> 'v list) list" where
  \<comment> \<open>\<^verbatim>\<open>for k in sorted(d.keys())\<close> with \<^verbatim>\<open>d[k]\<close>\<close>
  "sorted_items d =
     map (\<lambda>k. (k, case map_of d k of Some v \<Rightarrow> v | None \<Rightarrow> [])) (sort (map fst d))"

definition dash :: string where
  \<comment> \<open>the bytes between location and preview in the script's bullet line\<close>
  "dash = [CHR 0xE2, CHR 0x80, CHR 0x9A, CHR 0xC3, CHR 0x84, CHR 0xC3, CHR 0xAE]"

definition party :: string where
  \<comment> \<open>the bytes that open the script's empty-state line\<close>
  "party = [CHR 0xEF, CHR 0xA3, CHR 0xBF, CHR 0xC3, CHR 0xBC, CHR 0xC3, CHR 0xA9, CHR 0xC3, CHR 0xA2]"

definition render_item :: "item \<Rightarrow> string" where
  "render_item it =
     (let tag_str = (if tag it \<noteq> [] then '' **['' @ tag it @ '']**'' else []);
          location = (if link it \<noteq> [] then link it
                      else [CHR 0x60] @ file_rel it @ '':'' @ str_nat (line it) @ [CHR 0x60]);
          shown = (if msg it \<noteq> [] then msg it else preview it)
      in ''- '' @ location @ tag_str @ '' '' @ dash @ '' '' @ shown)"

definition render_marker :: "string \<times> item list \<Rightarrow> string list" where
  "render_marker g =
     [''### '' @ fst g @ '' ('' @ str_nat (length (snd g)) @ '')'', []]
       @ map render_item (snd g) @ [[]]"

definition heading :: "string \<Rightarrow> nat \<Rightarrow> string" where
  \<comment> \<open>the per-repo section heading\<close>
  "heading name n = ''## '' @ name @ '' ('' @ str_nat n @ '')''"

definition render_repo :: "string \<times> item list \<Rightarrow> string list" where
  "render_repo r =
     (let by_marker = fold (\<lambda>it d. setdefault_append (marker it) it d) (snd r) []
      in [heading (fst r) (length (snd r)), []]
           @ concat (map render_marker (sorted_items by_marker)) @ [[]])"

definition render_md ::
  "world \<Rightarrow> string list \<Rightarrow> string list \<Rightarrow> (string \<times> item list) list \<Rightarrow> string list" where
  \<comment> \<open>"Write Markdown": the list \<^verbatim>\<open>md_lines\<close>\<close>
  "render_md w repos markers aggregated =
     (let total_count = sum_list (map (\<lambda>kv. length (snd kv)) aggregated)
      in [''# Consolidated TODOs'', [],
          ''- Generated: '' @ utcnow w @ ''Z'',
          ''- Root scanned: '' @ [CHR 0x60] @ root_path w @ [CHR 0x60],
          ''- Repos scanned: '' @ (if repos \<noteq> [] then join '', '' repos else ''(none)''),
          ''- Markers: '' @ join '', '' markers,
          [],
          ''**Total items:** '' @ str_nat total_count]
         @ (if total_count = 0
            then [[], ''> '' @ party @ '' No TODO-like markers found in the scanned repositories.'']
            else [])
         @ [[]]
         @ concat (map render_repo (sorted_items aggregated)))"

record json_doc =
  generated_utc :: string
  json_root :: string
  json_repos :: "string list"
  json_markers :: "string list"
  json_count :: nat
  json_items :: "item list"

subsection \<open>main\<close>

record result =
  aggregated :: "(string \<times> item list) list" \<comment> \<open>the report, after the sort within repos\<close>
  md_lines :: "string list" \<comment> \<open>written to the Markdown file joined by newlines\<close>
  json_out :: "json_doc option"
  exit_code :: nat

definition flatten :: "('k \<times> 'v list) list \<Rightarrow> 'v list" where
  \<comment> \<open>"Flatten with repo in each row": the lists of the dictionary, in its order\<close>
  "flatten d = concat (map snd d)"

definition scan_repos :: "args \<Rightarrow> world \<Rightarrow> string list \<Rightarrow> acc" where
  "scan_repos a w repos = fold (process_repo a w) (sort repos) ([], False)"

definition sort_within :: "(string \<times> item list) list \<Rightarrow> (string \<times> item list) list" where
  \<comment> \<open>"Sort within repos: by marker then file then line"\<close>
  "sort_within d = map (\<lambda>(k, v). (k, sort_key (\<lambda>x. (marker x, file_rel x, line x)) v)) d"

definition main :: "args \<Rightarrow> world \<Rightarrow> fatal + result" where
  "main a w =
     (case repos_of a w of
        Inl e \<Rightarrow> Inl e
      | Inr repos \<Rightarrow>
          (let st = scan_repos a w repos;
               agg = sort_within (fst st);
               critical_found = snd st;
               md = render_md w repos (markers_of a) agg;
               flat = flatten agg
           in if \<not> md_writable w then Inl WriteFailed
              else if opt_out_json a \<noteq> [] \<and> \<not> json_writable w then Inl WriteFailed
              else Inr \<lparr>aggregated = agg, md_lines = md,
                        json_out = (if opt_out_json a \<noteq> []
                                    then Some \<lparr>generated_utc = utcnow w @ ''Z'', json_root = root_path w,
                                               json_repos = repos, json_markers = markers_of a,
                                               json_count = length flat, json_items = flat\<rparr>
                                    else None),
                        exit_code = (if critical_found then 1 else 0)\<rparr>))"

definition findings :: "result \<Rightarrow> item list" where
  \<comment> \<open>all findings of a run\<close>
  "findings r = flatten (aggregated r)"

definition crit_inv :: "acc \<Rightarrow> bool" where
  \<comment> \<open>loop invariant: the flag is set exactly when a collected finding looks critical\<close>
  "crit_inv st = (snd st \<longleftrightarrow> (\<exists>it \<in> set (flatten (fst st)). looks_critical (msg it)))"

definition produced_from :: "args \<Rightarrow> world \<Rightarrow> item \<Rightarrow> string list \<times> fsfile \<Rightarrow> bool" where
  \<comment> \<open>the finding is built from an entry that \<open>scan_file\<close> returns for this eligible file
      of the finding's repo\<close>
  "produced_from a w it pf =
     (case is_dir w (repo it) of
        None \<Rightarrow> False
      | Some (g, t) \<Rightarrow>
          pf \<in> set (collect_files t (include_exts_of a) (excluded_dirs_of a))
          \<and> (\<exists>e \<in> set (scan_file (snd pf) (markers_of a)).
                line it = line e \<and> marker it = marker e \<and> tag it = tag e
                \<and> msg it = msg e \<and> preview it = preview e)
          \<and> file_rel it = replace_char (CHR 0x5C) CHR ''/'' (join ''/'' (fst pf)))"

definition src_inv :: "args \<Rightarrow> world \<Rightarrow> acc \<Rightarrow> bool" where
  \<comment> \<open>loop invariant: every collected finding has a source file\<close>
  "src_inv a w st = (\<forall>it \<in> set (flatten (fst st)). \<exists>pf. produced_from a w it pf)"

subsection \<open>Example inputs\<close>

definition text_file :: "string \<Rightarrow> fsfile" where
  \<comment> \<open>a readable file with the given bytes\<close>
  "text_file s = \<lparr>raw = s, bin_read_fails = False, text_read_fails = None\<rparr>"

definition no_git :: git where
  "no_git = \<lparr>remote_url = None, symbolic_ref = None, rev_parse = None\<rparr>"

definition ex_args :: args where
  \<comment> \<open>\<^verbatim>\<open>--repos app --marker TODO --include-ext .py --no-remote-links\<close>\<close>
  "ex_args = \<lparr>opt_root = ''..'', opt_repos = ''app'', opt_out_md = ''TODO.md'', opt_out_json = [],
      opt_marker = ''TODO'', opt_include_ext = ''.py'',
      opt_extra_exclude = [], opt_no_remote_links = True, opt_branch = []\<rparr>"

definition ex_world :: world where
  "ex_world = \<lparr>root_path = ''/w'',
     root_entries = Some [(''app'', Directory no_git (Dir [] [(''a.py'', text_file ''TODO: urgent'')]))],
     utcnow = ''2024-01-01T00:00:00'', md_writable = True, json_writable = True\<rparr>"

definition ex_result :: result where
  "ex_result =
     \<lparr>aggregated =
        [(''app'', [\<lparr>line = 1, marker = ''TODO'', tag = [], msg = ''urgent'',
                    preview = ''TODO: urgent'', file_rel = ''a.py'', link = [], repo = ''app''\<rparr>])],
      md_lines =
        [''# Consolidated TODOs'', [], ''- Generated: 2024-01-01T00:00:00Z'',
         ''- Root scanned: '' @ [CHR 0x60] @ ''/w'' @ [CHR 0x60],
         ''- Repos scanned: app'', ''- Markers: TODO'', [], ''**Total items:** 1'', [],
         ''## app (1)'', [], ''### TODO (1)'', [],
         ''- '' @ [CHR 0x60] @ ''a.py:1'' @ [CHR 0x60] @ '' '' @ dash @ '' urgent'', [], []],
      json_out = None, exit_code = 1\<rparr>"

definition ex_git :: git where
  \<comment> \<open>an SSH remote, no recorded default branch, current branch \<^verbatim>\<open>work\<close>\<close>
  "ex_git = \<lparr>remote_url = Some ''git@github.com:org/app.git'', symbolic_ref = None,
             rev_parse = Some (''work'' @ [CHR 0x0A])\<rparr>"

definition ex_remote :: remote_info where
  "ex_remote = \<lparr>host = ''github.com'', orgrepo = ''org/app'', repo_name = ''app'',
                default_branch = ''work''\<rparr>"

definition ex_item :: item where
  "ex_item = \<lparr>line = 1, marker = ''TODO'', tag = [], msg = ''urgent'',
                    preview = ''TODO: urgent'', file_rel = ''a.py'', link = [], repo = ''app''\<rparr>"

definition cx_args :: args where
  \<comment> \<open>\<^verbatim>\<open>--marker TODO --include-ext .py --no-remote-links\<close>: the repos are discovered\<close>
  "cx_args = \<lparr>opt_root = ''..'', opt_repos = [], opt_out_md = ''TODO.md'', opt_out_json = [],
      opt_marker = ''TODO'', opt_include_ext = ''.py'',
      opt_extra_exclude = [], opt_no_remote_links = True, opt_branch = []\<rparr>"

definition cx_world :: world where
  \<comment> \<open>a root whose only subdirectory is called \<^verbatim>\<open>node_modules\<close>\<close>
  "cx_world = \<lparr>root_path = ''/w'',
     root_entries = Some [(''node_modules'',
        Directory no_git (Dir [] [(''a.py'', text_file ''TODO: urgent'')]))],
     utcnow = ''2024-01-01T00:00:00'', md_writable = True, json_writable = True\<rparr>"

definition cx_item :: item where
  "cx_item = \<lparr>line = 1, marker = ''TODO'', tag = [], msg = ''urgent'',
               preview = ''TODO: urgent'', file_rel = ''a.py'', link = [], repo = ''node_modules''\<rparr>"

definition cx_result :: result where
  "cx_result =
     \<lparr>aggregated = [(''node_modules'', [cx_item])],
      md_lines =
        [''# Consolidated TODOs'', [], ''- Generated: 2024-01-01T00:00:00Z'',
         ''- Root scanned: '' @ [CHR 0x60] @ ''/w'' @ [CHR 0x60],
         ''- Repos scanned: node_modules'', ''- Markers: TODO'', [], ''**Total items:** 1'', [],
         ''## node_modules (1)'', [], ''### TODO (1)'', [],
         ''- '' @ [CHR 0x60] @ ''a.py:1'' @ [CHR 0x60] @ '' '' @ dash @ '' urgent'', [], []],
      json_out = None, exit_code = 1\<rparr>"

definition ex_world2 :: world where
  \<comment> \<open>like \<open>ex_world\<close>, with a vendor directory inside the repo\<close>
  "ex_world2 = \<lparr>root_path = ''/w'',
     root_entries = Some [(''app'', Directory no_git
        (Dir [(''node_modules'', Dir [] [(''b.py'', text_file ''TODO: vendor'')])]
             [(''a.py'', text_file ''TODO: urgent'')]))],
     utcnow = ''2024-01-01T00:00:00'', md_writable = True, json_writable = True\<rparr>"








section \<open>Properties\<close>

subsection \<open>Strings, dictionaries and loops\<close>

lemma startswith_iff: "startswith s p \<longleftrightarrow> (\<exists>ss. s = p @ ss)"
  by (induction s p rule: startswith.induct) auto

lemma contains_iff: "contains sub s \<longleftrightarrow> (\<exists>ps ss. s = ps @ sub @ ss)"
proof (induction s)
  case Nil
  then show ?case by auto
next
  case (Cons c cs)
  show ?case
  proof
    assume "contains sub (c # cs)"
    then consider "startswith (c # cs) sub" | "contains sub cs" by auto
    then show "\<exists>ps ss. c # cs = ps @ sub @ ss"
    proof cases
      case 1
      then obtain ss where "c # cs = sub @ ss" by (auto simp: startswith_iff)
      then have "c # cs = [] @ sub @ ss" by simp
      then show ?thesis by blast
    next
      case 2
      then obtain ps ss where "cs = ps @ sub @ ss" using Cons.IH by auto
      then have "c # cs = (c # ps) @ sub @ ss" by simp
      then show ?thesis by blast
    qed
  next
    assume "\<exists>ps ss. c # cs = ps @ sub @ ss"
    then obtain ps ss where e: "c # cs = ps @ sub @ ss" by auto
    show "contains sub (c # cs)"
    proof (cases ps)
      case Nil
      then have "startswith (c # cs) sub" using e by (auto simp: startswith_iff)
      then show ?thesis by simp
    next
      case (Cons p ps')
      then have "cs = ps' @ sub @ ss" using e by simp
      then have "contains sub cs" using Cons.IH by blast
      then show ?thesis by simp
    qed
  qed
qed

lemma fold_inv:
  assumes "P s" and "\<And>x s. x \<in> set xs \<Longrightarrow> P s \<Longrightarrow> P (f x s)"
  shows "P (fold f xs s)"
  using assms by (induction xs arbitrary: s) auto

lemma items_setdefault_append:
  "set (flatten (setdefault_append k v d)) = insert v (set (flatten d))"
proof (cases "k \<in> fst ` set d")
  case False
  then show ?thesis by (simp add: setdefault_append_def flatten_def)
next
  case True
  have "k \<in> fst ` set d \<Longrightarrow>
        (\<Union>x\<in>set d. set (snd (case x of (k', vs) \<Rightarrow> if k' = k then (k', vs @ [v]) else (k', vs))))
        = insert v (\<Union>x\<in>set d. set (snd x))"
    by (induction d) (auto split: if_splits)
  with True show ?thesis by (simp add: setdefault_append_def flatten_def)
qed

lemma keys_setdefault_append:
  "fst ` set (setdefault_append k v d) = insert k (fst ` set d)"
proof (cases "k \<in> fst ` set d")
  case False
  then show ?thesis by (simp add: setdefault_append_def)
next
  case True
  have "fst \<circ> (\<lambda>(k', vs). if k' = k then (k', vs @ [v]) else (k', vs)) = fst"
    by (auto simp: fun_eq_iff)
  then have "fst ` set (map (\<lambda>(k', vs). if k' = k then (k', vs @ [v]) else (k', vs)) d) = fst ` set d"
    by (simp add: image_image [symmetric] image_comp)
  with True show ?thesis by (auto simp: setdefault_append_def)
qed

lemma crit_inv_entry: "crit_inv st \<Longrightarrow> crit_inv (process_entry a ri b n rel e st)"
  unfolding crit_inv_def process_entry_def Let_def
  by (auto simp add: items_setdefault_append)

lemma crit_inv_file: "crit_inv st \<Longrightarrow> crit_inv (process_file a ms ri b n pf st)"
  unfolding process_file_def
proof (rule fold_inv [where P = crit_inv])
  show "crit_inv st" if "crit_inv st" using that .
qed (rule crit_inv_entry)

lemma crit_inv_repo: "crit_inv st \<Longrightarrow> crit_inv (process_repo a w n st)"
proof (cases "is_dir w n")
  case None
  then show "crit_inv st \<Longrightarrow> ?thesis" by (simp add: process_repo_def)
next
  case (Some gt)
  assume st: "crit_inv st"
  obtain g t where gt: "gt = (g, t)" by (cases gt)
  show ?thesis
    unfolding process_repo_def Some gt Let_def option.case prod.case
    by (rule fold_inv [where P = crit_inv]) (auto intro: st crit_inv_file)
qed

lemma crit_inv_scan: "crit_inv (scan_repos a w repos)"
  unfolding scan_repos_def
  by (rule fold_inv [where P = crit_inv]) (simp_all add: crit_inv_def [of "([], False)"] flatten_def crit_inv_repo)

lemma items_sort_within: "set (flatten (sort_within d)) = set (flatten d)"
  by (induction d) (auto simp: sort_within_def flatten_def)

lemma main_Inr:
  assumes "main a w = Inr r"
  obtains repos where "repos_of a w = Inr repos"
    and "aggregated r = sort_within (fst (scan_repos a w repos))"
    and "md_lines r = render_md w repos (markers_of a) (aggregated r)"
    and "exit_code r = (if snd (scan_repos a w repos) then 1 else 0)"
  using assms unfolding main_def Let_def
  by (auto split: sum.splits if_splits)

lemma ex_main: "main ex_args ex_world = Inr ex_result"
  by code_simp

subsection \<open>The critical gate\<close>

text \<open>
  Claim C1. In a run without a fatal error, the exit code is 1 exactly when some finding
  of the report has a message text whose lower-case form contains one of the critical
  keywords as a substring, and it is 0 otherwise.
\<close>

theorem exit_code_critical:
  assumes "main a w = Inr r"
  shows "exit_code r =
          (if \<exists>it \<in> set (findings r). \<exists>word \<in> CRITICAL_WORDS. \<exists>ps ss. lower (msg it) = ps @ word @ ss
           then 1 else 0)"
proof -
  from assms obtain repos where
    agg: "aggregated r = sort_within (fst (scan_repos a w repos))" and
    ex: "exit_code r = (if snd (scan_repos a w repos) then 1 else 0)"
    by (rule main_Inr)
  have "snd (scan_repos a w repos) \<longleftrightarrow> (\<exists>it \<in> set (findings r). looks_critical (msg it))"
    using crit_inv_scan [of a w repos]
    by (simp add: crit_inv_def findings_def agg items_sort_within)
  then show ?thesis
    by (simp add: ex looks_critical_def contains_iff)
qed

theorem exit_code_critical_witness:
  "main ex_args ex_world = Inr ex_result \<and>
   exit_code ex_result =
     (if \<exists>it \<in> set (findings ex_result). \<exists>word \<in> CRITICAL_WORDS. \<exists>ps ss. lower (msg it) = ps @ word @ ss
      then 1 else 0) \<and>
   exit_code ex_result = 1"
  using exit_code_critical [OF ex_main] ex_main by (simp add: ex_result_def)

subsection \<open>Scanning single lines\<close>

text \<open>
  Claim C6. With the default markers, a file whose only line is
  \<^verbatim>\<open>// TODO(alice): fix race condition\<close> yields exactly one finding, with marker TODO, tag
  alice and text "fix race condition"; a file whose only line is
  \<^verbatim>\<open># FIXME - handle null case\<close> yields exactly one finding, with marker FIXME, empty tag
  and text "handle null case".
\<close>

theorem scan_scenarios:
  "scan_file (text_file ''// TODO(alice): fix race condition'') DEFAULT_MARKERS =
     [\<lparr>line = 1, marker = ''TODO'', tag = ''alice'', msg = ''fix race condition'',
       preview = ''// TODO(alice): fix race condition''\<rparr>]
   \<and> scan_file (text_file ''# FIXME - handle null case'') DEFAULT_MARKERS =
     [\<lparr>line = 1, marker = ''FIXME'', tag = [], msg = ''handle null case'',
       preview = ''# FIXME - handle null case''\<rparr>]"
  by code_simp

text \<open>
  Claim C2 asks that a line with a configured marker in any letter case yields a finding
  with the upper-cased marker. The pattern does match \<^verbatim>\<open>todo\<close> (it is compiled with the
  flag \<^verbatim>\<open>i\<close>), but \<open>scan_file\<close> compares the matched text as it stands with the
  upper-cased configured markers, so the line is dropped.
\<close>

theorem lowercase_marker_dropped:
  "map_option (\<lambda>m. group m ''marker'') (search TODO_PATTERN ''# todo: fix this'') = Some (Some ''todo'')
   \<and> markers_of parse_args = [''TODO'', ''FIXME'', ''BUG'']
   \<and> scan_file (text_file ''# todo: fix this'') (markers_of parse_args) = []"
  by code_simp

subsection \<open>Remote metadata and links\<close>

lemma ex_detect: "detect_remote_info ex_git = Some ex_remote"
  by code_simp

text \<open>
  Claim C8. When remote detection succeeds, the branch is the last path component of the
  remote's recorded default branch reference; if that command fails, the current local
  branch name; if that fails too, the literal \<^verbatim>\<open>main\<close>.
\<close>

theorem branch_resolution:
  assumes "detect_remote_info g = Some info"
  shows "default_branch info =
           (case symbolic_ref g of
              Some s \<Rightarrow> last (split_on CHR ''/'' (strip s))
            | None \<Rightarrow> (case rev_parse g of Some b \<Rightarrow> strip b | None \<Rightarrow> ''main''))"
  using assms
  by (auto simp: detect_remote_info_def detect_branch_def git_cmd_def Let_def
           split: option.splits if_splits prod.splits)

theorem branch_resolution_witness:
  "detect_remote_info ex_git = Some ex_remote
   \<and> default_branch ex_remote =
      (case symbolic_ref ex_git of
         Some s \<Rightarrow> last (split_on CHR ''/'' (strip s))
       | None \<Rightarrow> (case rev_parse ex_git of Some b \<Rightarrow> strip b | None \<Rightarrow> ''main''))"
  using branch_resolution [OF ex_detect] ex_detect by simp

lemma format_github:
  "format ''https://{host}/{orgrepo}/blob/{branch}/{path}#L{line}''
     [(''host'', h), (''orgrepo'', orp), (''repo'', rp), (''branch'', b), (''path'', p), (''line'', l)]
   = Some (''https://'' @ h @ ''/'' @ orp @ ''/blob/'' @ b @ ''/'' @ p @ ''#L'' @ l)"
  by (simp add: format_def)

lemma format_gitlab:
  "format ''https://{host}/{orgrepo}/-/blob/{branch}/{path}#L{line}''
     [(''host'', h), (''orgrepo'', orp), (''repo'', rp), (''branch'', b), (''path'', p), (''line'', l)]
   = Some (''https://'' @ h @ ''/'' @ orp @ ''/-/blob/'' @ b @ ''/'' @ p @ ''#L'' @ l)"
  by (simp add: format_def)

lemma format_azure:
  "format ''https://{host}/{orgrepo}/_git/{repo}?path=/{path}&version=GB{branch}&line={line}''
     [(''host'', h), (''orgrepo'', orp), (''repo'', rp), (''branch'', b), (''path'', p), (''line'', l)]
   = Some (''https://'' @ h @ ''/'' @ orp @ ''/_git/'' @ rp @ ''?path=/'' @ p @ ''&version=GB'' @ b @ ''&line='' @ l)"
  by (simp add: format_def)

text \<open>
  Claim C9. The template is chosen by testing whether a provider host occurs as a
  substring of the remote host, in table order: the first provider contained in the host
  gives the link, and a host containing none of them gives no link. So a host such as
  \<^verbatim>\<open>github.com.example.org\<close> gets a link from the GitHub template.
\<close>

theorem link_by_substring:
  "build_line_link r b p n =
     (if contains ''github.com'' (host r) then
        Some (''https://'' @ host r @ ''/'' @ orgrepo r @ ''/blob/'' @ b @ ''/'' @ p @ ''#L'' @ str_nat n)
      else if contains ''gitlab.com'' (host r) then
        Some (''https://'' @ host r @ ''/'' @ orgrepo r @ ''/-/blob/'' @ b @ ''/'' @ p @ ''#L'' @ str_nat n)
      else if contains ''dev.azure.com'' (host r) then
        Some (''https://'' @ host r @ ''/'' @ orgrepo r @ ''/_git/'' @ repo_name r @ ''?path=/'' @ p
                @ ''&version=GB'' @ b @ ''&line='' @ str_nat n)
      else None)"
  unfolding build_line_link_def LINE_LINK_TEMPLATES_def
  by (simp add: format_github format_gitlab format_azure)


theorem link_by_substring_witness:
  "build_line_link (ex_remote\<lparr>host := ''github.com.example.org''\<rparr>) ''main'' ''src/a.py'' 12 =
     Some ''https://github.com.example.org/org/app/blob/main/src/a.py#L12''
   \<and> build_line_link (ex_remote\<lparr>host := ''example.org''\<rparr>) ''main'' ''src/a.py'' 12 = None"
  using link_by_substring [of "ex_remote\<lparr>host := ''github.com.example.org''\<rparr>" "''main''" "''src/a.py''" 12]
        link_by_substring [of "ex_remote\<lparr>host := ''example.org''\<rparr>" "''main''" "''src/a.py''" 12]
  by code_simp

subsection \<open>Where findings come from\<close>

lemma walk_paths:
  "(root, fs) \<in> set (walk prune pre t) \<Longrightarrow> \<exists>ds. root = pre @ ds \<and> (\<forall>d \<in> set ds. \<not> prune d)"
proof (induction prune pre t arbitrary: root fs rule: walk.induct)
  case (1 prune pre ds fs')
  from "1.prems" consider "root = pre" | d t where "(d, t) \<in> set ds" "\<not> prune d"
      "(root, fs) \<in> set (walk prune (pre @ [d]) t)"
    by auto
  then show ?case
  proof cases
    case 1
    then show ?thesis by simp
  next
    case 2
    then obtain ds' where "root = (pre @ [d]) @ ds'" "\<forall>x \<in> set ds'. \<not> prune x"
      using "1.IH" [of "(d, t)" d t root fs] by auto
    with 2 have "root = pre @ (d # ds')" "\<forall>x \<in> set (d # ds'). \<not> prune x" by auto
    then show ?thesis by blast
  qed
qed

lemma collect_files_sound:
  assumes "(p, f) \<in> set (collect_files t inc exc)"
  shows "\<exists>ds name. p = ds @ [name] \<and> (\<forall>d \<in> set ds. \<not> should_exclude_dir d exc)
           \<and> file_ext name \<in> inc \<and> \<not> is_binary_file f 1024"
proof -
  from assms obtain root fs name where
    v: "(root, fs) \<in> set (walk (\<lambda>d. should_exclude_dir d exc) [] t)" and
    m: "(name, f) \<in> set fs" "file_ext name \<in> inc" "\<not> is_binary_file f 1024" "p = root @ [name]"
    by (auto simp: collect_files_def)
  from walk_paths [OF v] have "\<forall>d \<in> set root. \<not> should_exclude_dir d exc" by auto
  with m show ?thesis by blast
qed

lemma src_inv_entry:
  assumes "is_dir w name = Some (g, t)"
    and "pf \<in> set (collect_files t (include_exts_of a) (excluded_dirs_of a))"
    and "e \<in> set (scan_file (snd pf) (markers_of a))"
    and "src_inv a w st"
  shows "src_inv a w (process_entry a ri b name (join ''/'' (fst pf)) e st)"
proof -
  let ?it = "\<lparr>line = line e, marker = marker e, tag = tag e, msg = msg e, preview = preview e,
             file_rel = replace_char (CHR 0x5C) CHR ''/'' (join ''/'' (fst pf)),
             link = (case (case ri of
                   Some ri' \<Rightarrow>
                     if \<not> opt_no_remote_links a
                     then build_line_link ri' b (replace_char (CHR 0x5C) CHR ''/'' (join ''/'' (fst pf))) (line e)
                     else None
                 | None \<Rightarrow> None) of None \<Rightarrow> [] | Some l \<Rightarrow> l),
             repo = name\<rparr>"
  have "produced_from a w ?it pf"
    using assms(1-3) by (auto simp: produced_from_def)
  then have "\<exists>pf'. produced_from a w ?it pf'" by blast
  then show ?thesis
    using assms(4)
    by (simp add: src_inv_def process_entry_def Let_def items_setdefault_append
             del: split_paired_Ex)
qed

lemma src_inv_file:
  assumes "is_dir w name = Some (g, t)"
    and "pf \<in> set (collect_files t (include_exts_of a) (excluded_dirs_of a))"
    and "src_inv a w st"
  shows "src_inv a w (process_file a (markers_of a) ri b name pf st)"
  unfolding process_file_def
  by (rule fold_inv [where P = "src_inv a w"]) (auto intro: assms src_inv_entry [OF assms(1,2)])

lemma src_inv_repo: "src_inv a w st \<Longrightarrow> src_inv a w (process_repo a w n st)"
proof (cases "is_dir w n")
  case None
  then show "src_inv a w st \<Longrightarrow> ?thesis" by (simp add: process_repo_def)
next
  case (Some gt)
  assume st: "src_inv a w st"
  obtain g t where gt: "gt = (g, t)" by (cases gt)
  show ?thesis
    unfolding process_repo_def Some gt Let_def option.case prod.case
    by (rule fold_inv [where P = "src_inv a w"])
       (auto intro: st src_inv_file [OF Some [unfolded gt]])
qed

lemma src_inv_scan: "src_inv a w (scan_repos a w repos)"
  unfolding scan_repos_def
  by (rule fold_inv [where P = "src_inv a w"])
     (simp_all add: src_inv_def [of a w "([], False)"] flatten_def src_inv_repo)

lemma findings_have_source:
  assumes "main a w = Inr r" and "it \<in> set (findings r)"
  shows "\<exists>pf. produced_from a w it pf"
proof -
  from assms(1) obtain repos where
    agg: "aggregated r = sort_within (fst (scan_repos a w repos))"
    by (rule main_Inr)
  with assms(2) have "it \<in> set (flatten (fst (scan_repos a w repos)))"
    by (simp add: findings_def items_sort_within)
  with src_inv_scan [of a w repos] show ?thesis by (auto simp: src_inv_def)
qed

lemma ex_item_found: "ex_item \<in> set (findings ex_result)"
  by (simp add: findings_def ex_result_def flatten_def ex_item_def)

lemma is_binary_file_iff:
  "is_binary_file f n \<longleftrightarrow>
     bin_read_fails f \<or> CHR 0x00 \<in> set (take n (raw f)) \<or> (\<exists>b \<in> set (take n (raw f)). \<not> textchars (code b))"
  by (auto simp: is_binary_file_def Let_def filter_empty_conv)

lemma produced_from_collected:
  assumes "produced_from a w it pf"
  shows "\<exists>g t. is_dir w (repo it) = Some (g, t)
           \<and> pf \<in> set (collect_files t (include_exts_of a) (excluded_dirs_of a))"
  using assms by (auto simp: produced_from_def split: option.splits)

text \<open>
  Claim C5. A file that cannot be read, or whose first 1024 bytes contain a NUL byte or
  any byte outside the allow-list (so also a high proportion of them), is classified
  binary; no finding of any run is produced from it, whatever its name: every finding
  comes from an eligible file that is not classified binary.
\<close>

theorem binary_files_yield_nothing:
  assumes "bin_read_fails f \<or> CHR 0x00 \<in> set (take 1024 (raw f))
           \<or> (\<exists>b \<in> set (take 1024 (raw f)). \<not> textchars (code b))"
    and "main a w = Inr r" and "it \<in> set (findings r)"
  shows "is_binary_file f 1024
         \<and> (\<forall>p. \<not> produced_from a w it (p, f))
         \<and> (\<exists>pf. produced_from a w it pf \<and> \<not> is_binary_file (snd pf) 1024)"
proof (intro conjI allI)
  show b: "is_binary_file f 1024" using assms(1) by (simp add: is_binary_file_iff)
  show "\<not> produced_from a w it (p, f)" for p
  proof
    assume "produced_from a w it (p, f)"
    then obtain g t where "(p, f) \<in> set (collect_files t (include_exts_of a) (excluded_dirs_of a))"
      using produced_from_collected by blast
    then have "\<not> is_binary_file f 1024" using collect_files_sound by blast
    with b show False by simp
  qed
  obtain pf where pf: "produced_from a w it pf"
    using findings_have_source [OF assms(2,3)] by blast
  then obtain g t where "pf \<in> set (collect_files t (include_exts_of a) (excluded_dirs_of a))"
    using produced_from_collected by blast
  then have "\<not> is_binary_file (snd pf) 1024"
    using collect_files_sound [of "fst pf" "snd pf"] by auto
  with pf show "\<exists>pf. produced_from a w it pf \<and> \<not> is_binary_file (snd pf) 1024" by blast
qed

theorem binary_files_yield_nothing_witness:
  "CHR 0x00 \<in> set (take 1024 (raw (text_file (''TODO: urgent'' @ [CHR 0x00]))))
   \<and> main ex_args ex_world = Inr ex_result \<and> ex_item \<in> set (findings ex_result)
   \<and> is_binary_file (text_file (''TODO: urgent'' @ [CHR 0x00])) 1024
   \<and> (\<forall>p. \<not> produced_from ex_args ex_world ex_item (p, text_file (''TODO: urgent'' @ [CHR 0x00])))
   \<and> (\<exists>pf. produced_from ex_args ex_world ex_item pf \<and> \<not> is_binary_file (snd pf) 1024)"
proof -
  have h: "bin_read_fails (text_file (''TODO: urgent'' @ [CHR 0x00]))
           \<or> CHR 0x00 \<in> set (take 1024 (raw (text_file (''TODO: urgent'' @ [CHR 0x00]))))
           \<or> (\<exists>b \<in> set (take 1024 (raw (text_file (''TODO: urgent'' @ [CHR 0x00])))). \<not> textchars (code b))"
    by (simp add: text_file_def)
  have h': "CHR 0x00 \<in> set (take 1024 (raw (text_file (''TODO: urgent'' @ [CHR 0x00]))))"
    by (simp add: text_file_def)
  show ?thesis
    using binary_files_yield_nothing [OF h ex_main ex_item_found] h' ex_main ex_item_found
    by blast
qed

text \<open>
  Claim C4 speaks of every file inside a directory excluded by the directory-name rule.
  The rule is applied to the directories met below a repo directory only: \<open>walk\<close> prunes
  the children of the directory it visits, never its top, and the repos are every
  subdirectory of the root but \<^verbatim>\<open>super\<close> (or the names given). So a repo directory that is
  itself called \<^verbatim>\<open>node_modules\<close> is scanned, and its files yield findings.
\<close>

lemma cx_main: "main cx_args cx_world = Inr cx_result"
  by code_simp

theorem excluded_repo_dir_counterexample:
  "main cx_args cx_world = Inr cx_result
   \<and> cx_item \<in> set (findings cx_result)
   \<and> should_exclude_dir ''node_modules'' (excluded_dirs_of cx_args)
   \<and> produced_from cx_args cx_world cx_item ([''a.py''], text_file ''TODO: urgent'')"
  using cx_main by code_simp

text \<open>
  Claim C4, amended. No finding is produced from a file whose path below its repo
  directory has a component excluded by the directory-name rule (in particular a name
  beginning with a dot), or whose extension (or whole lower-cased name, when it has no
  extension) is not in the allow-list: every finding has an eligible source file.
  Excluded directories below a repo directory are pruned before descending: no directory
  visited by the walk has an excluded component. The repo directory's own name is not
  subject to the rule.
\<close>

theorem excluded_files_yield_nothing:
  assumes "main a w = Inr r" and "it \<in> set (findings r)"
  shows "(\<forall>ds name f. (\<exists>d \<in> set ds. should_exclude_dir d (excluded_dirs_of a))
                        \<or> file_ext name \<notin> include_exts_of a
                      \<longrightarrow> \<not> produced_from a w it (ds @ [name], f))
         \<and> (\<exists>pf. produced_from a w it pf)
         \<and> (\<forall>t. \<forall>v \<in> set (walk (\<lambda>d. should_exclude_dir d (excluded_dirs_of a)) [] t).
                  \<forall>d \<in> set (fst v). \<not> should_exclude_dir d (excluded_dirs_of a))
         \<and> (\<forall>d. startswith d ''.'' \<and> d \<noteq> ''.'' \<longrightarrow> should_exclude_dir d (excluded_dirs_of a))"
proof (intro conjI allI impI ballI)
  fix ds name f
  assume x: "(\<exists>d \<in> set ds. should_exclude_dir d (excluded_dirs_of a)) \<or> file_ext name \<notin> include_exts_of a"
  show "\<not> produced_from a w it (ds @ [name], f)"
  proof
    assume "produced_from a w it (ds @ [name], f)"
    then obtain g t where
      "(ds @ [name], f) \<in> set (collect_files t (include_exts_of a) (excluded_dirs_of a))"
      using produced_from_collected by blast
    from collect_files_sound [OF this] obtain ds' name' where
      "ds @ [name] = ds' @ [name']" "\<forall>d \<in> set ds'. \<not> should_exclude_dir d (excluded_dirs_of a)"
      "file_ext name' \<in> include_exts_of a" by blast
    with x show False by auto
  qed
next
  show "\<exists>pf. produced_from a w it pf" using findings_have_source [OF assms] .
next
  fix t v d
  assume "v \<in> set (walk (\<lambda>d. should_exclude_dir d (excluded_dirs_of a)) [] t)" "d \<in> set (fst v)"
  then show "\<not> should_exclude_dir d (excluded_dirs_of a)"
    using walk_paths [of "fst v" "snd v" "\<lambda>d. should_exclude_dir d (excluded_dirs_of a)" "[]" t]
    by auto
next
  fix d assume "startswith d ''.'' \<and> d \<noteq> ''.''"
  then show "should_exclude_dir d (excluded_dirs_of a)" by (simp add: should_exclude_dir_def)
qed

lemma ex_excluded: "should_exclude_dir ''node_modules'' (excluded_dirs_of ex_args)"
  by code_simp

lemma ex_main2: "main ex_args ex_world2 = Inr ex_result"
  by code_simp

theorem excluded_files_yield_nothing_witness:
  "main ex_args ex_world2 = Inr ex_result \<and> ex_item \<in> set (findings ex_result)
   \<and> should_exclude_dir ''node_modules'' (excluded_dirs_of ex_args)
   \<and> \<not> produced_from ex_args ex_world2 ex_item ([''node_modules''] @ [''b.py''], text_file ''TODO: vendor'')
   \<and> (\<exists>pf. produced_from ex_args ex_world2 ex_item pf)"
  using excluded_files_yield_nothing [OF ex_main2 ex_item_found] ex_main2 ex_item_found ex_excluded
  by (metis list.set_intros(1))

subsection \<open>Repo names without a directory\<close>






lemma keys_sort_within: "map fst (sort_within d) = map fst d"
  by (induction d) (auto simp: sort_within_def)














subsection \<open>Read failures\<close>






subsection \<open>Repos without findings\<close>















end
